theory Spec2Isabelle
  imports Main
begin

section \<open>Data model\<close>

text \<open>
  A point in time (Go's \<open>time.Time\<close>, the store's \<open>TIMESTAMP WITH TIME ZONE\<close>) is the
  number of nanoseconds since the Unix epoch. \<open>zero_time\<close> is Go's zero \<open>time.Time\<close>,
  January 1 of year 1, 00:00:00 UTC.
\<close>

type_synonym time = int

definition zero_time :: time where
  "zero_time = - 62135596800 * 1000000000"

text \<open>
  \<open>Format_RFC3339 t\<close> is the instant that the text \<open>t.Format(time.RFC3339)\<close> denotes. The
  layout \<open>2006-01-02T15:04:05Z07:00\<close> has no fractional seconds, so the text names the
  start of the second that holds \<open>t\<close>; the zone offset it carries keeps the instant.
\<close>

definition Format_RFC3339 :: "time \<Rightarrow> time" where
  "Format_RFC3339 t = (t div 1000000000) * 1000000000"

text \<open>The struct \<open>Book\<close> of main.go and the request structs of the handlers.\<close>

record Book =
  BookID :: string
  UserID :: string
  Title :: string
  Author :: string
  Deadline :: time
  Status :: string
  InsultLevel :: int
  CreatedAt :: time
  UpdatedAt :: time

record LineAuthRequest =
  LineAccessToken :: string
  LineUserID :: string

record DeleteRequest =
  delete_BookID :: string
  delete_UserID :: string

record CompleteRequest =
  complete_BookID :: string

text \<open>
  The rows of the two tables of the schema. Identifiers (\<open>UUID\<close> columns) and text columns
  are strings; a field is named after its column, with the table's name in front for the
  columns of \<open>users\<close>.
\<close>

record user_row =
  users_id :: string
  users_display_name :: string
  users_line_user_id :: string
  users_created_at :: time
  users_updated_at :: time

record book_row =
  book_id :: string
  user_id :: string
  title :: string
  author :: string
  deadline :: time
  status :: string
  insult_level :: int
  created_at :: time
  updated_at :: time

subsection \<open>JSON objects and decoding into a struct\<close>

text \<open>
  A JSON object is a list of keys with values. \<open>JTime t\<close> is a JSON string holding an
  RFC 3339 timestamp for the instant \<open>t\<close>, the form in which the store returns a
  timestamp column and in which \<open>time.Time\<close> decodes.
\<close>

datatype json = JString string | JNumber int | JTime time

type_synonym json_object = "(string \<times> json) list"

text \<open>
  \<open>encoding/json\<close> fills a struct field from an object key that equals the field's
  \<open>json\<close> tag, ignoring letter case; a \<open>db\<close> tag plays no part. Keys are taken in order,
  so the last matching key of the right JSON type gives the value, and a field that no
  key matches keeps its zero value.

  Strings are UTF-8 bytes. Ignoring case is comparing after folding: \<open>A\<close> to \<open>Z\<close> become
  \<open>a\<close> to \<open>z\<close>, and the two other characters that Unicode folds onto an ASCII letter, the
  Kelvin sign U+212A (bytes E2 84 AA) and the long s U+017F (bytes C5 BF), become \<open>k\<close> and
  \<open>s\<close>. Every tag is ASCII, so a key with any other character beyond ASCII equals no tag,
  folded or not.
\<close>

definition to_lower :: "char \<Rightarrow> char" where
  "to_lower c =
     (case map_of (zip ''ABCDEFGHIJKLMNOPQRSTUVWXYZ'' ''abcdefghijklmnopqrstuvwxyz'') c of
        Some l \<Rightarrow> l
      | None \<Rightarrow> c)"

fun foldName :: "string \<Rightarrow> string" where
  "foldName (a # b # c # rest) =
     (if a = CHR 0xE2 \<and> b = CHR 0x84 \<and> c = CHR 0xAA then CHR ''k'' # foldName rest
      else if a = CHR 0xC5 \<and> b = CHR 0xBF then CHR ''s'' # foldName (c # rest)
      else to_lower a # foldName (b # c # rest))"
| "foldName [a, b] =
     (if a = CHR 0xC5 \<and> b = CHR 0xBF then [CHR ''s''] else [to_lower a, to_lower b])"
| "foldName [a] = [to_lower a]"
| "foldName [] = []"

definition EqualFold :: "string \<Rightarrow> string \<Rightarrow> bool" where
  "EqualFold s t = (foldName s = foldName t)"

text \<open>
  A Go \<open>int\<close> has 64 bits: a number outside its range is a decoding error and leaves the
  field as it was.
\<close>

definition string_field :: "string \<Rightarrow> json_object \<Rightarrow> string" where
  "string_field tag obj =
     foldl (\<lambda>acc (k, v). if EqualFold k tag then (case v of JString s \<Rightarrow> s | _ \<Rightarrow> acc) else acc)
       [] obj"

definition int_field :: "string \<Rightarrow> json_object \<Rightarrow> int" where
  "int_field tag obj =
     foldl (\<lambda>acc (k, v).
              if EqualFold k tag
              then (case v of
                      JNumber n \<Rightarrow>
                        if - 9223372036854775808 \<le> n \<and> n \<le> 9223372036854775807 then n else acc
                    | _ \<Rightarrow> acc)
              else acc)
       0 obj"

definition time_field :: "string \<Rightarrow> json_object \<Rightarrow> time" where
  "time_field tag obj =
     foldl (\<lambda>acc (k, v). if EqualFold k tag then (case v of JTime t \<Rightarrow> t | _ \<Rightarrow> acc) else acc)
       zero_time obj"

text \<open>The \<open>json\<close> tags of \<open>Book\<close>, as main.go lines 25 to 33 give them.\<close>

definition unmarshal_Book :: "json_object \<Rightarrow> Book" where
  "unmarshal_Book obj =
     \<lparr> BookID = string_field ''bookId'' obj,
       UserID = string_field ''userId'' obj,
       Title = string_field ''title'' obj,
       Author = string_field ''author'' obj,
       Deadline = time_field ''deadline'' obj,
       Status = string_field ''status'' obj,
       InsultLevel = int_field ''insultLevel'' obj,
       CreatedAt = time_field ''createdAt'' obj,
       UpdatedAt = time_field ''updatedAt'' obj \<rparr>"

text \<open>
  The store answers \<open>Select("*")\<close> with one JSON object per row, keyed by the column names
  of the schema. \<open>handleGetBooks\<close> hands these bytes to the client unchanged.
\<close>

definition book_row_json :: "book_row \<Rightarrow> json_object" where
  "book_row_json r =
     [(''book_id'', JString (book_id r)),
      (''user_id'', JString (user_id r)),
      (''title'', JString (title r)),
      (''author'', JString (author r)),
      (''deadline'', JTime (deadline r)),
      (''status'', JString (status r)),
      (''insult_level'', JNumber (insult_level r)),
      (''created_at'', JTime (created_at r)),
      (''updated_at'', JTime (updated_at r))]"

section \<open>The environment of a request and the world it acts on\<close>

text \<open>
  The five texts of \<open>generateInsult\<close>, in the order of its slice; the fourth is formatted
  with the book's title.
\<close>

datatype insult =
  Waste_of_time | Never_read_again | Already_rotten | Not_on_your_list string | Graveyard_shelf

datatype push_result = Transport_error string | Response_status nat

text \<open>
  What a request reads from outside the process: the two environment variables, the
  clock (\<open>time.Now()\<close>, and \<open>NOW()\<close> in the store), and the answers of the collaborators.
  \<open>store_fault env k\<close> is the error of the store call number \<open>k\<close> (\<open>None\<close> when the call
  goes through), \<open>gen_random_uuid env k\<close> the identifier the store draws for a row inserted
  by call \<open>k\<close>, \<open>push_reply env k\<close> the messaging provider's answer to push number \<open>k\<close>, and
  \<open>rand_Intn env k\<close> the draw number \<open>k\<close> of the random generator.
\<close>

record env =
  CRON_SECRET :: string
  LINE_CHANNEL_ACCESS_TOKEN :: string
  now :: time
  db_now :: time
  store_fault :: "nat \<Rightarrow> string option"
  gen_random_uuid :: "nat \<Rightarrow> string"
  push_reply :: "nat \<Rightarrow> push_result"
  rand_Intn :: "nat \<Rightarrow> nat"

datatype call =
  Select_users | Insert_users | Select_books | Insert_books | Update_books | Delete_books

text \<open>
  The world: the two tables, the lines written with \<open>log.Printf\<close>, the store calls issued
  so far, the number of pushes sent to the provider, the messages it accepted (recipient
  and text), and the number of random draws.
\<close>

record world =
  users :: "user_row list"
  books :: "book_row list"
  logged :: "string list"
  trace :: "call list"
  push_attempts :: nat
  pushed :: "(string \<times> insult) list"
  draws :: nat

subsection \<open>The data store\<close>

text \<open>
  Every store call is recorded, and fails when the environment says so. A call that goes
  through filters, inserts, updates or deletes rows; an insert also checks the keys of the
  schema (\<open>PRIMARY KEY\<close>, \<open>UNIQUE\<close>, \<open>REFERENCES users(id)\<close>). A filter on a \<open>UUID\<close> column
  with a text that is no UUID is refused by the real store; here such a call either fails
  through \<open>store_fault\<close> or goes through and matches no row, and the results below hold in
  both cases.
\<close>

definition Execute :: "env \<Rightarrow> call \<Rightarrow> world \<Rightarrow> string option \<times> world" where
  "Execute env c w = (store_fault env (length (trace w)), w\<lparr>trace := trace w @ [c]\<rparr>)"

definition select_users :: "env \<Rightarrow> (user_row \<Rightarrow> bool) \<Rightarrow> world \<Rightarrow> (string + user_row list) \<times> world" where
  "select_users env p w =
     (case Execute env Select_users w of
        (Some err, w') \<Rightarrow> (Inl err, w')
      | (None, w') \<Rightarrow> (Inr (filter p (users w')), w'))"

definition select_books :: "env \<Rightarrow> (book_row \<Rightarrow> bool) \<Rightarrow> world \<Rightarrow> (string + book_row list) \<times> world" where
  "select_books env p w =
     (case Execute env Select_books w of
        (Some err, w') \<Rightarrow> (Inl err, w')
      | (None, w') \<Rightarrow> (Inr (filter p (books w')), w'))"

definition insert_user :: "env \<Rightarrow> string \<Rightarrow> string \<Rightarrow> world \<Rightarrow> string option \<times> world" where
  "insert_user env line_id name w =
     (case Execute env Insert_users w of
        (Some err, w') \<Rightarrow> (Some err, w')
      | (None, w') \<Rightarrow>
          (let row = \<lparr> users_id = gen_random_uuid env (length (trace w)),
                       users_display_name = name,
                       users_line_user_id = line_id,
                       users_created_at = db_now env,
                       users_updated_at = db_now env \<rparr>
           in if users_id row \<in> set (map users_id (users w'))
              then (Some ''duplicate key value violates unique constraint users_pkey'', w')
              else if line_id \<in> set (map users_line_user_id (users w'))
              then (Some ''duplicate key value violates unique constraint users_line_user_id_key'', w')
              else (None, w'\<lparr>users := users w' @ [row]\<rparr>)))"

definition insert_book :: "env \<Rightarrow> Book \<Rightarrow> world \<Rightarrow> string option \<times> world" where
  "insert_book env book w =
     (case Execute env Insert_books w of
        (Some err, w') \<Rightarrow> (Some err, w')
      | (None, w') \<Rightarrow>
          (let row = \<lparr> book_id = gen_random_uuid env (length (trace w)),
                       user_id = UserID book,
                       title = Title book,
                       author = Author book,
                       deadline = Deadline book,
                       status = Status book,
                       insult_level = InsultLevel book,
                       created_at = db_now env,
                       updated_at = db_now env \<rparr>
           in if book_id row \<in> set (map book_id (books w'))
              then (Some ''duplicate key value violates unique constraint books_pkey'', w')
              else if UserID book \<notin> set (map users_id (users w'))
              then (Some ''insert violates foreign key constraint books_user_id_fkey'', w')
              else (None, w'\<lparr>books := books w' @ [row]\<rparr>)))"

definition update_books ::
  "env \<Rightarrow> (book_row \<Rightarrow> bool) \<Rightarrow> (book_row \<Rightarrow> book_row) \<Rightarrow> world \<Rightarrow> string option \<times> world" where
  "update_books env p f w =
     (case Execute env Update_books w of
        (Some err, w') \<Rightarrow> (Some err, w')
      | (None, w') \<Rightarrow> (None, w'\<lparr>books := map (\<lambda>r. if p r then f r else r) (books w')\<rparr>))"

definition delete_books :: "env \<Rightarrow> (book_row \<Rightarrow> bool) \<Rightarrow> world \<Rightarrow> string option \<times> world" where
  "delete_books env p w =
     (case Execute env Delete_books w of
        (Some err, w') \<Rightarrow> (Some err, w')
      | (None, w') \<Rightarrow> (None, w'\<lparr>books := filter (\<lambda>r. \<not> p r) (books w')\<rparr>))"

subsection \<open>Requests and responses\<close>

text \<open>
  Of a request the handlers read the method, the \<open>Authorization\<close> header and the
  \<open>userId\<close> query parameter (each empty when absent) and the body. \<open>Body r\<close> is what
  \<open>json.NewDecoder(r.Body).Decode\<close> produces for the handler's request struct: \<open>None\<close> when
  it returns an error.
\<close>

record 'a request =
  Method :: string
  Authorization :: string
  userId :: string
  Body :: "'a option"

datatype payload =
  Empty | Text string | Message string | Rows "json_object list"

record response =
  code :: nat
  body :: payload

text \<open>
  A response is its status code and its body; the headers (the CORS headers of
  \<open>corsMiddleware\<close>, the content type) are left out. \<open>http.Error\<close> writes the message and a
  line feed.
\<close>

definition http_Error :: "string \<Rightarrow> nat \<Rightarrow> response" where
  "http_Error msg c = \<lparr> code = c, body = Text (msg @ [CHR 0x0A]) \<rparr>"

text \<open>\<open>json.NewEncoder(w).Encode(map[string]string{"message": m})\<close> after an optional \<open>WriteHeader\<close>.\<close>

definition json_message :: "nat \<Rightarrow> string \<Rightarrow> response" where
  "json_message c m = \<lparr> code = c, body = Message m \<rparr>"

text \<open>\<open>%d\<close> of \<open>fmt.Sprintf\<close> for a count.\<close>

fun decimal :: "nat \<Rightarrow> string" where
  "decimal n =
     (if n < 10 then [''0123456789'' ! n]
      else decimal (n div 10) @ [''0123456789'' ! (n mod 10)])"

declare decimal.simps [simp del]

section \<open>The handlers of main.go\<close>

definition corsMiddleware ::
  "(env \<Rightarrow> 'a request \<Rightarrow> world \<Rightarrow> response \<times> world) \<Rightarrow> env \<Rightarrow> 'a request \<Rightarrow> world \<Rightarrow> response \<times> world" where
  "corsMiddleware next env r w =
     (if Method r = ''OPTIONS'' then (\<lparr> code = 200, body = Empty \<rparr>, w) else next env r w)"

definition handleLineAuth :: "env \<Rightarrow> LineAuthRequest request \<Rightarrow> world \<Rightarrow> response \<times> world" where
  "handleLineAuth env r w =
     (case Body r of
        None \<Rightarrow> (http_Error ''Invalid request'' 400, w)
      | Some req \<Rightarrow>
          (case select_users env (\<lambda>u. users_line_user_id u = LineUserID req) w of
             (Inl err, w1) \<Rightarrow>
               (http_Error (''failed to query user: '' @ err) 500,
                w1\<lparr>logged := logged w1 @ [''[ERROR] handleLineAuth query error: '' @ err]\<rparr>)
           | (Inr results, w1) \<Rightarrow>
               (if length results = 0 then
                  (case insert_user env (LineUserID req) ''LINE User'' w1 of
                     (Some err, w2) \<Rightarrow>
                       (http_Error (''failed to create user: '' @ err) 500,
                        w2\<lparr>logged := logged w2 @ [''[ERROR] handleLineAuth insert error: '' @ err]\<rparr>)
                   | (None, w2) \<Rightarrow> (json_message 200 ''Auth pre-check successful'', w2))
                else (json_message 200 ''Auth pre-check successful'', w1))))"


definition handleRegisterBook :: "env \<Rightarrow> Book request \<Rightarrow> world \<Rightarrow> response \<times> world" where
  "handleRegisterBook env r w =
     (case Body r of
        None \<Rightarrow> (http_Error ''Invalid request'' 400, w)
      | Some book \<Rightarrow>
          (if Title book = '''' \<or> Author book = '''' \<or> UserID book = ''''
           then (http_Error ''Missing required fields'' 400, w)
           else
             (let book = (if Status book = '''' then book\<lparr>Status := ''unread''\<rparr> else book) in
              case insert_book env book w of
                (Some err, w1) \<Rightarrow> (http_Error (''failed to register book: '' @ err) 500, w1)
              | (None, w1) \<Rightarrow> (json_message 201 ''Book registered successfully'', w1))))"

definition handleUpdateBook :: "env \<Rightarrow> Book request \<Rightarrow> world \<Rightarrow> response \<times> world" where
  "handleUpdateBook env r w =
     (case Body r of
        None \<Rightarrow> (http_Error ''Invalid request'' 400, w)
      | Some book \<Rightarrow>
          (case update_books env (\<lambda>b. book_id b = BookID book \<and> user_id b = UserID book)
                  (\<lambda>b. b\<lparr> title := Title book, author := Author book, deadline := Deadline book,
                          status := Status book, insult_level := InsultLevel book,
                          updated_at := now env \<rparr>) w of
             (Some err, w1) \<Rightarrow> (http_Error (''failed to update book: '' @ err) 500, w1)
           | (None, w1) \<Rightarrow> (json_message 200 ''Book updated successfully'', w1)))"

definition handleDeleteBook :: "env \<Rightarrow> DeleteRequest request \<Rightarrow> world \<Rightarrow> response \<times> world" where
  "handleDeleteBook env r w =
     (case Body r of
        None \<Rightarrow> (http_Error ''Invalid request'' 400, w)
      | Some req \<Rightarrow>
          (case delete_books env (\<lambda>b. book_id b = delete_BookID req \<and> user_id b = delete_UserID req) w of
             (Some err, w1) \<Rightarrow> (http_Error (''failed to delete book: '' @ err) 500, w1)
           | (None, w1) \<Rightarrow> (json_message 200 ''Book deleted successfully'', w1)))"

definition handleCompleteBook :: "env \<Rightarrow> CompleteRequest request \<Rightarrow> world \<Rightarrow> response \<times> world" where
  "handleCompleteBook env r w =
     (case Body r of
        None \<Rightarrow> (http_Error ''Invalid request'' 400, w)
      | Some req \<Rightarrow>
          (case update_books env (\<lambda>b. book_id b = complete_BookID req)
                  (\<lambda>b. b\<lparr> status := ''completed'', updated_at := now env \<rparr>) w of
             (Some err, w1) \<Rightarrow> (http_Error (''failed to complete book: '' @ err) 500, w1)
           | (None, w1) \<Rightarrow> (json_message 200 ''Book marked as completed'', w1)))"

subsection \<open>The deadline sweep\<close>

definition insultMessages :: "Book \<Rightarrow> insult list" where
  "insultMessages book =
     [Waste_of_time, Never_read_again, Already_rotten, Not_on_your_list (Title book), Graveyard_shelf]"

text \<open>\<open>rand.Intn(n)\<close> returns an index below \<open>n\<close>.\<close>

definition generateInsult :: "env \<Rightarrow> Book \<Rightarrow> world \<Rightarrow> insult \<times> world" where
  "generateInsult env book w =
     (insultMessages book ! (rand_Intn env (draws w) mod length (insultMessages book)),
      w\<lparr>draws := Suc (draws w)\<rparr>)"

definition sendLineMessage :: "env \<Rightarrow> string \<Rightarrow> insult \<Rightarrow> world \<Rightarrow> string option \<times> world" where
  "sendLineMessage env lineUserID message w =
     (if LINE_CHANNEL_ACCESS_TOKEN env = '''' then (Some ''LINE_CHANNEL_ACCESS_TOKEN is not set'', w)
      else
        (let w' = w\<lparr>push_attempts := Suc (push_attempts w)\<rparr> in
         case push_reply env (push_attempts w) of
           Transport_error err \<Rightarrow> (Some err, w')
         | Response_status c \<Rightarrow>
             (if c \<noteq> 200 then (Some ''LINE API error'', w')
              else (None, w'\<lparr>pushed := pushed w' @ [(lineUserID, message)]\<rparr>))))"

text \<open>The selection query of \<open>handleCheckDeadlines\<close>, lines 266 to 270.\<close>

definition overdue_books :: "env \<Rightarrow> world \<Rightarrow> (string + book_row list) \<times> world" where
  "overdue_books env w =
     select_books env
       (\<lambda>b. status b \<in> set [''unread'', ''insulted''] \<and> deadline b < Format_RFC3339 (now env)) w"

text \<open>The body of the loop over the decoded books, lines 281 to 294.\<close>

definition notify :: "env \<Rightarrow> Book \<Rightarrow> nat \<Rightarrow> world \<Rightarrow> nat \<times> world" where
  "notify env book count w =
     (case generateInsult env book w of
        (insultMsg, w1) \<Rightarrow>
          (case select_users env (\<lambda>u. users_id u = UserID book) w1 of
             (Inl err, w2) \<Rightarrow> (count, w2)
           | (Inr [], w2) \<Rightarrow> (count, w2)
           | (Inr (u # _), w2) \<Rightarrow>
               (case sendLineMessage env (users_line_user_id u) insultMsg w2 of
                  (Some err, w3) \<Rightarrow> (count, w3)
                | (None, w3) \<Rightarrow>
                    (case update_books env (\<lambda>b. book_id b = BookID book)
                            (\<lambda>b. b\<lparr>status := ''insulted''\<rparr>) w3 of
                       (_, w4) \<Rightarrow> (count + 1, w4)))))"

fun sweep :: "env \<Rightarrow> Book list \<Rightarrow> nat \<Rightarrow> world \<Rightarrow> nat \<times> world" where
  "sweep env [] count w = (count, w)"
| "sweep env (book # rest) count w =
     (case notify env book count w of (count', w') \<Rightarrow> sweep env rest count' w')"

definition handleCheckDeadlines :: "env \<Rightarrow> 'a request \<Rightarrow> world \<Rightarrow> response \<times> world" where
  "handleCheckDeadlines env r w =
     (let cronSecret = CRON_SECRET env in
      if cronSecret \<noteq> '''' \<and> Authorization r \<noteq> ''Bearer '' @ cronSecret
      then (http_Error ''Unauthorized'' 401, w)
      else
        (case overdue_books env w of
           (Inl err, w1) \<Rightarrow> (http_Error (''database error: '' @ err) 500, w1)
         | (Inr resp, w1) \<Rightarrow>
             (case sweep env (map (unmarshal_Book \<circ> book_row_json) resp) 0 w1 of
                (count, w2) \<Rightarrow>
                  (json_message 200
                     (''Checked deadlines. Found '' @ decimal count @ '' expired books.''), w2))))"

subsection \<open>What a sweep may do to a row\<close>

text \<open>
  \<open>written ids b b'\<close>: the row \<open>b'\<close> is the row \<open>b\<close>, or it is \<open>b\<close> with the status
  \<open>insulted\<close> and the identifier of \<open>b\<close> is one of \<open>ids\<close>. \<open>status_writes w\<close> counts the
  update calls issued on the table of books so far.
\<close>

definition written :: "string set \<Rightarrow> book_row \<Rightarrow> book_row \<Rightarrow> bool" where
  "written ids b b' = (b' = b \<or> (b' = b\<lparr>status := ''insulted''\<rparr> \<and> book_id b \<in> ids))"

definition status_writes :: "world \<Rightarrow> nat" where
  "status_writes w = length (filter (\<lambda>c. c = Update_books) (trace w))"

section \<open>Sample data\<close>

text \<open>
  One user with one unread book whose deadline is 2024-01-01T00:00:00Z, and an environment
  in which the clock reads 2024-06-01T00:00:00Z, no secret is configured and every
  collaborator answers. \<open>nobody\<close> is the store before anyone has logged in.
\<close>

definition alice :: user_row where
  "alice = \<lparr> users_id = ''11111111-1111-4111-8111-111111111111'',
             users_display_name = ''LINE User'',
             users_line_user_id = ''Ualice'',
             users_created_at = 1700000000000000000,
             users_updated_at = 1700000000000000000 \<rparr>"

definition dune :: book_row where
  "dune = \<lparr> book_id = ''22222222-2222-4222-8222-222222222222'',
            user_id = ''11111111-1111-4111-8111-111111111111'',
            title = ''Dune'',
            author = ''Frank Herbert'',
            deadline = 1704067200000000000,
            status = ''unread'',
            insult_level = 3,
            created_at = 1700000000000000000,
            updated_at = 1700000000000000000 \<rparr>"

definition library :: world where
  "library = \<lparr> users = [alice], books = [dune], logged = [], trace = [],
               push_attempts = 0, pushed = [], draws = 0 \<rparr>"

definition nobody :: world where
  "nobody = \<lparr> users = [], books = [], logged = [], trace = [],
              push_attempts = 0, pushed = [], draws = 0 \<rparr>"

definition calm :: env where
  "calm = \<lparr> CRON_SECRET = [],
            LINE_CHANNEL_ACCESS_TOKEN = ''token'',
            now = 1717200000000000000,
            db_now = 1717200000000000000,
            store_fault = (\<lambda>k. None),
            gen_random_uuid = (\<lambda>k. ''33333333-3333-4333-8333-333333333333''),
            push_reply = (\<lambda>k. Response_status 200),
            rand_Intn = (\<lambda>k. 3) \<rparr>"



text \<open>A request with the given method and decoded body, no header and no query parameter.\<close>

definition plain :: "string \<Rightarrow> 'a option \<Rightarrow> 'a request" where
  "plain m b = \<lparr> Method = m, Authorization = [], userId = [], Body = b \<rparr>"

definition login :: "LineAuthRequest request" where
  "login = plain ''POST'' (Some \<lparr> LineAccessToken = ''access'', LineUserID = ''Ualice'' \<rparr>)"




definition finished :: CompleteRequest where
  "finished = \<lparr> complete_BookID = ''22222222-2222-4222-8222-222222222222'' \<rparr>"

text \<open>
  Decoded \<open>Book\<close> bodies: \<open>{"userId": ..., "author": "Frank Herbert"}\<close> (no title), a
  complete new book, and \<open>{"bookId": ..., "userId": ...}\<close> with none of the other fields.
\<close>

definition untitled :: Book where
  "untitled = \<lparr> BookID = [], UserID = ''11111111-1111-4111-8111-111111111111'', Title = [],
                Author = ''Frank Herbert'', Deadline = zero_time, Status = [], InsultLevel = 0,
                CreatedAt = zero_time, UpdatedAt = zero_time \<rparr>"


definition blank_update :: Book where
  "blank_update = \<lparr> BookID = ''22222222-2222-4222-8222-222222222222'',
                     UserID = ''11111111-1111-4111-8111-111111111111'',
                     Title = [], Author = [], Deadline = zero_time, Status = [], InsultLevel = 0,
                     CreatedAt = zero_time, UpdatedAt = zero_time \<rparr>"

section \<open>Decoding the rows of the store\<close>



text \<open>A key spelt with the Kelvin sign and capitals still equals the tag \<open>bookId\<close>.\<close>

lemma EqualFold_kelvin:
  "EqualFold (''BOO'' @ [CHR 0xE2, CHR 0x84, CHR 0xAA] @ ''ID'') ''bookId''"
  by (simp add: EqualFold_def to_lower_def)


section \<open>The selection of a sweep\<close>

lemma Format_RFC3339_bounds: "Format_RFC3339 t \<le> t \<and> t - 1000000000 < Format_RFC3339 t"
proof -
  have "t div 1000000000 * 1000000000 = t - t mod 1000000000"
    by (simp add: minus_mod_eq_div_mult)
  moreover have "0 \<le> t mod 1000000000" "t mod 1000000000 < 1000000000"
    by simp_all
  ultimately show ?thesis
    unfolding Format_RFC3339_def by linarith
qed

text \<open>
  C1, as the code has it. When the store answers the selection query, the rows it returns
  are exactly the book rows, in table order, whose status is \<open>unread\<close> or \<open>insulted\<close> and
  whose deadline lies strictly before the start of the second that holds the clock
  reading (the query passes \<open>time.Now().Format(time.RFC3339)\<close>). That instant is never
  later than the clock reading, so no returned row has status \<open>completed\<close> or \<open>reading\<close>
  or a deadline at or after now.
\<close>

theorem overdue_books_selection:
  assumes "fst (overdue_books env w) = Inr resp"
  shows "resp = filter (\<lambda>b. (status b = ''unread'' \<or> status b = ''insulted'') \<and>
                          deadline b < Format_RFC3339 (now env)) (books w) \<and>
         (\<forall>b \<in> set resp. status b \<noteq> ''completed'' \<and> status b \<noteq> ''reading'' \<and> deadline b < now env)"
proof -
  have le: "Format_RFC3339 (now env) \<le> now env"
    by (simp add: Format_RFC3339_bounds)
  from assms have resp: "resp = filter (\<lambda>b. (status b = ''unread'' \<or> status b = ''insulted'') \<and>
                          deadline b < Format_RFC3339 (now env)) (books w)"
    by (simp add: overdue_books_def select_books_def Execute_def split: option.splits)
  have "\<forall>b \<in> set resp. status b \<noteq> ''completed'' \<and> status b \<noteq> ''reading'' \<and> deadline b < now env"
    unfolding resp using le by auto
  with resp show ?thesis by blast
qed

text \<open>The sample book, due in January, is selected by a sweep in June.\<close>

theorem overdue_books_selection_witness:
  "fst (overdue_books calm library) = Inr [dune] \<and>
   status dune \<noteq> ''completed'' \<and> status dune \<noteq> ''reading'' \<and> deadline dune < now calm"
proof -
  have sel: "fst (overdue_books calm library) = Inr [dune]"
    by (simp add: overdue_books_def select_books_def Execute_def calm_def library_def dune_def
        Format_RFC3339_def)
  show ?thesis
    using overdue_books_selection [OF sel] sel by simp
qed

text \<open>
  C1 as stated fails inside the second of the sweep: an unread book whose deadline is
  2024-06-01T00:00:00.5Z is overdue at 2024-06-01T00:00:00.9Z, and the query, which
  compares with 2024-06-01T00:00:00Z, does not return it.
\<close>

theorem overdue_books_same_second:
  "dune\<lparr>deadline := 1717200000500000000\<rparr>
     \<in> set (books (library\<lparr>books := [dune\<lparr>deadline := 1717200000500000000\<rparr>]\<rparr>)) \<and>
   status (dune\<lparr>deadline := 1717200000500000000\<rparr>) = ''unread'' \<and>
   deadline (dune\<lparr>deadline := 1717200000500000000\<rparr>) < now (calm\<lparr>now := 1717200000900000000\<rparr>) \<and>
   fst (overdue_books (calm\<lparr>now := 1717200000900000000\<rparr>)
          (library\<lparr>books := [dune\<lparr>deadline := 1717200000500000000\<rparr>]\<rparr>)) = Inr []"
  by (simp add: overdue_books_def select_books_def Execute_def calm_def library_def dune_def
      Format_RFC3339_def)

section \<open>The cron secret\<close>

text \<open>
  C3. When \<open>CRON_SECRET\<close> is set and the \<open>Authorization\<close> header is not \<open>Bearer\<close> followed
  by the secret, \<open>handleCheckDeadlines\<close> answers 401 and returns the world as it found it:
  no store call is recorded, no push is attempted, no row and no log line changes.
\<close>

theorem handleCheckDeadlines_unauthorized:
  "CRON_SECRET env \<noteq> [] \<Longrightarrow> Authorization r \<noteq> ''Bearer '' @ CRON_SECRET env \<Longrightarrow>
   handleCheckDeadlines env r w = (http_Error ''Unauthorized'' 401, w)"
  by (simp add: handleCheckDeadlines_def)

theorem handleCheckDeadlines_unauthorized_witness:
  "handleCheckDeadlines (calm\<lparr>CRON_SECRET := ''s3cret''\<rparr>)
     \<lparr> Method = ''POST'', Authorization = ''Bearer guess'', userId = [], Body = (None :: unit option) \<rparr>
     library
   = (\<lparr> code = 401, body = Text (''Unauthorized'' @ [CHR 0x0A]) \<rparr>, library)"
  using handleCheckDeadlines_unauthorized
    [of "calm\<lparr>CRON_SECRET := ''s3cret''\<rparr>"
        "\<lparr> Method = ''POST'', Authorization = ''Bearer guess'', userId = [], Body = (None :: unit option) \<rparr>"
        library]
  by (simp add: calm_def http_Error_def)

text \<open>
  The route wraps the handler in \<open>corsMiddleware\<close>, which answers an \<open>OPTIONS\<close> request
  with 200 before the handler runs; on every other method the route is the handler.
\<close>

lemma cron_route_without_secret:
  "CRON_SECRET env \<noteq> [] \<Longrightarrow> Authorization r \<noteq> ''Bearer '' @ CRON_SECRET env \<Longrightarrow>
   corsMiddleware handleCheckDeadlines env r w =
     (if Method r = ''OPTIONS'' then \<lparr> code = 200, body = Empty \<rparr> else http_Error ''Unauthorized'' 401, w)"
  by (simp add: corsMiddleware_def handleCheckDeadlines_def)

section \<open>Registering a book\<close>

text \<open>
  C4. A create-book request whose decoded title, author or owner id is empty is answered
  with 400 and the world is returned as it was: the insert is not issued (the trace of
  store calls does not grow) and no row is created.
\<close>

theorem handleRegisterBook_missing_field:
  "Body r = Some book \<Longrightarrow> Title book = [] \<or> Author book = [] \<or> UserID book = [] \<Longrightarrow>
   handleRegisterBook env r w = (http_Error ''Missing required fields'' 400, w)"
  by (simp add: handleRegisterBook_def)

theorem handleRegisterBook_missing_field_witness:
  "handleRegisterBook calm (plain ''POST'' (Some untitled)) library
   = (\<lparr> code = 400, body = Text (''Missing required fields'' @ [CHR 0x0A]) \<rparr>, library)"
  using handleRegisterBook_missing_field [of "plain ''POST'' (Some untitled)" untitled calm library]
  by (simp add: plain_def untitled_def http_Error_def)

section \<open>Auth bootstrap\<close>

lemma distinct_matches_le1:
  "distinct (map f xs) \<Longrightarrow> length (filter (\<lambda>x. f x = k) xs) \<le> Suc 0"
proof (induction xs)
  case Nil
  then show ?case by simp
next
  case (Cons x xs)
  show ?case
  proof (cases "f x = k")
    case True
    with Cons.prems have "k \<notin> f ` set xs" by auto
    then have "filter (\<lambda>x. f x = k) xs = []"
      by (auto simp: filter_empty_conv)
    with True show ?thesis by simp
  next
    case False
    with Cons show ?thesis by simp
  qed
qed

text \<open>
  One call: the \<open>UNIQUE\<close> key of \<open>line_user_id\<close> is kept, no row with the id is lost, a
  call answered with 200 leaves exactly one such row, and a call that finds a row with
  the id leaves the table as it is.
\<close>

lemma handleLineAuth_once:
  assumes d: "distinct (map users_line_user_id (users w))"
    and b: "Body r = Some req"
    and h: "handleLineAuth env r w = (resp, w')"
  shows "distinct (map users_line_user_id (users w'))"
    and "length (filter (\<lambda>u. users_line_user_id u = LineUserID req) (users w))
           \<le> length (filter (\<lambda>u. users_line_user_id u = LineUserID req) (users w'))"
    and "code resp = 200 \<Longrightarrow>
         length (filter (\<lambda>u. users_line_user_id u = LineUserID req) (users w')) = Suc 0"
    and "filter (\<lambda>u. users_line_user_id u = LineUserID req) (users w) \<noteq> [] \<Longrightarrow> users w' = users w"
proof -
  let ?P = "\<lambda>u. users_line_user_id u = LineUserID req"
  have le: "length (filter ?P (users w)) \<le> Suc 0"
    using d by (rule distinct_matches_le1)
  show "distinct (map users_line_user_id (users w'))"
    using d b h
    by (auto simp: handleLineAuth_def select_users_def insert_user_def Execute_def Let_def
        split: option.splits if_splits)
  show "length (filter ?P (users w)) \<le> length (filter ?P (users w'))"
    using b h
    by (auto simp: handleLineAuth_def select_users_def insert_user_def Execute_def Let_def
        split: option.splits if_splits)
  have one: "length (filter ?P (users w)) = Suc 0" if "filter ?P (users w) \<noteq> []"
    using le that by (cases "filter ?P (users w)") auto
  show "length (filter ?P (users w')) = Suc 0" if "code resp = 200"
    using b h that one
    by (auto simp: handleLineAuth_def select_users_def insert_user_def Execute_def Let_def
        http_Error_def json_message_def
        split: option.splits if_splits)
  show "users w' = users w" if "filter ?P (users w) \<noteq> []"
    using b h that
    by (auto simp: handleLineAuth_def select_users_def Execute_def split: option.splits)
qed

text \<open>
  C5. Start from a table of users that respects the \<open>UNIQUE\<close> key of \<open>line_user_id\<close> and
  call auth bootstrap twice in sequence with the same external id. Whatever the store
  does, at most one row has that id afterwards; when either call is answered with 200,
  exactly one row has it; and when the first call is answered with 200, the second call
  leaves the table of users as the first left it.
\<close>

theorem handleLineAuth_idempotent:
  assumes "distinct (map users_line_user_id (users w))"
    and "Body r = Some req"
    and "handleLineAuth env r w = (resp, w1)"
    and "handleLineAuth env' r w1 = (resp', w2)"
  shows "length (filter (\<lambda>u. users_line_user_id u = LineUserID req) (users w2)) \<le> 1 \<and>
         (code resp = 200 \<or> code resp' = 200 \<longrightarrow>
            length (filter (\<lambda>u. users_line_user_id u = LineUserID req) (users w2)) = 1) \<and>
         (code resp = 200 \<longrightarrow> users w2 = users w1)"
proof -
  let ?n = "\<lambda>v. length (filter (\<lambda>u. users_line_user_id u = LineUserID req) (users v))"
  note first = handleLineAuth_once [OF assms(1) assms(2) assms(3)]
  note second = handleLineAuth_once [OF first(1) assms(2) assms(4)]
  have le: "?n w2 \<le> Suc 0"
    using second(1) by (rule distinct_matches_le1)
  have "?n w2 = Suc 0" if "code resp = 200"
    using first(3) [OF that] second(2) le by simp
  moreover have "?n w2 = Suc 0" if "code resp' = 200"
    using second(3) [OF that] .
  moreover have "users w2 = users w1" if "code resp = 200"
  proof (rule second(4))
    from first(3) [OF that]
    show "filter (\<lambda>u. users_line_user_id u = LineUserID req) (users w1) \<noteq> []"
      by auto
  qed
  ultimately show ?thesis
    using le by auto
qed

lemma login_first:
  "handleLineAuth calm login nobody =
     (json_message 200 ''Auth pre-check successful'',
      nobody\<lparr> trace := [Select_users, Insert_users],
              users := [\<lparr> users_id = ''33333333-3333-4333-8333-333333333333'',
                          users_display_name = ''LINE User'',
                          users_line_user_id = ''Ualice'',
                          users_created_at = 1717200000000000000,
                          users_updated_at = 1717200000000000000 \<rparr>] \<rparr>)"
  by (simp add: handleLineAuth_def select_users_def insert_user_def Execute_def Let_def
      login_def plain_def nobody_def calm_def)

lemma login_second:
  "handleLineAuth calm login
     (nobody\<lparr> trace := [Select_users, Insert_users],
              users := [\<lparr> users_id = ''33333333-3333-4333-8333-333333333333'',
                          users_display_name = ''LINE User'',
                          users_line_user_id = ''Ualice'',
                          users_created_at = 1717200000000000000,
                          users_updated_at = 1717200000000000000 \<rparr>] \<rparr>) =
     (json_message 200 ''Auth pre-check successful'',
      nobody\<lparr> trace := [Select_users, Insert_users, Select_users],
              users := [\<lparr> users_id = ''33333333-3333-4333-8333-333333333333'',
                          users_display_name = ''LINE User'',
                          users_line_user_id = ''Ualice'',
                          users_created_at = 1717200000000000000,
                          users_updated_at = 1717200000000000000 \<rparr>] \<rparr>)"
  by (simp add: handleLineAuth_def select_users_def insert_user_def Execute_def Let_def
      login_def plain_def nobody_def calm_def)

text \<open>Two logins on the empty store: the first inserts the row, the second finds it.\<close>

theorem handleLineAuth_idempotent_witness:
  "length (filter (\<lambda>u. users_line_user_id u = ''Ualice'')
     (users (snd (handleLineAuth calm login (snd (handleLineAuth calm login nobody)))))) = 1"
proof -
  have d: "distinct (map users_line_user_id (users nobody))"
    by (simp add: nobody_def)
  have b: "Body login = Some \<lparr> LineAccessToken = ''access'', LineUserID = ''Ualice'' \<rparr>"
    by (simp add: login_def plain_def)
  show ?thesis
    using handleLineAuth_idempotent [OF d b login_first login_second]
    by (simp add: login_first login_second json_message_def)
qed

section \<open>Deleting and completing a book\<close>

text \<open>
  C6. A delete request scoped to an owner id leaves every row of another owner in place:
  such a row is still in the table afterwards, and the rows of other owners are the same
  rows in the same order, whether or not the store call goes through.
\<close>

theorem handleDeleteBook_other_owner:
  "Body r = Some req \<Longrightarrow> b \<in> set (books w) \<Longrightarrow> user_id b \<noteq> delete_UserID req \<Longrightarrow>
   b \<in> set (books (snd (handleDeleteBook env r w))) \<and>
   filter (\<lambda>b. user_id b \<noteq> delete_UserID req) (books (snd (handleDeleteBook env r w))) =
   filter (\<lambda>b. user_id b \<noteq> delete_UserID req) (books w)"
  by (auto simp: handleDeleteBook_def delete_books_def Execute_def split: option.splits
      intro: filter_cong)

text \<open>A stranger asks to delete the sample book under another owner id: the row stays.\<close>

theorem handleDeleteBook_other_owner_witness:
  "dune \<in> set (books (snd (handleDeleteBook calm
      (plain ''DELETE'' (Some \<lparr> delete_BookID = ''22222222-2222-4222-8222-222222222222'',
                               delete_UserID = ''44444444-4444-4444-8444-444444444444'' \<rparr>))
      library)))"
  using handleDeleteBook_other_owner
    [of "plain ''DELETE'' (Some \<lparr> delete_BookID = ''22222222-2222-4222-8222-222222222222'',
                                  delete_UserID = ''44444444-4444-4444-8444-444444444444'' \<rparr>)"
        "\<lparr> delete_BookID = ''22222222-2222-4222-8222-222222222222'',
           delete_UserID = ''44444444-4444-4444-8444-444444444444'' \<rparr>"
        dune library calm]
  by (simp add: plain_def library_def dune_def)

text \<open>
  C9. The request of \<open>handleCompleteBook\<close> carries a book id and nothing else. When the
  store call goes through, every row with that id gets the status \<open>completed\<close> (and the
  clock reading as \<open>updated_at\<close>), whoever owns it, and every other row stays as it is.
\<close>

theorem handleCompleteBook_by_id_only:
  "Body r = Some req \<Longrightarrow> store_fault env (length (trace w)) = None \<Longrightarrow>
   handleCompleteBook env r w =
     (json_message 200 ''Book marked as completed'',
      w\<lparr> trace := trace w @ [Update_books],
         books := map (\<lambda>b. if book_id b = complete_BookID req
                            then b\<lparr>status := ''completed'', updated_at := now env\<rparr> else b) (books w) \<rparr>)"
  by (simp add: handleCompleteBook_def update_books_def Execute_def)

theorem handleCompleteBook_by_id_only_witness:
  "handleCompleteBook calm (plain ''POST'' (Some finished)) library
   = (\<lparr> code = 200, body = Message ''Book marked as completed'' \<rparr>,
      library\<lparr> trace := [Update_books],
               books := [dune\<lparr>status := ''completed'', updated_at := 1717200000000000000\<rparr>] \<rparr>)"
  using handleCompleteBook_by_id_only [of "plain ''POST'' (Some finished)" finished calm library]
  by (simp add: plain_def finished_def library_def dune_def calm_def json_message_def)

section \<open>A store call that fails\<close>












section \<open>Requests with missing fields\<close>

text \<open>
  Update, delete, complete and auth bootstrap check no field of a decoded body: they
  never answer 400 to it, and their first store call is always issued.
\<close>

lemma handlers_without_validation:
  "(Body r_put = Some book \<longrightarrow>
      code (fst (handleUpdateBook env r_put w)) \<noteq> 400 \<and>
      trace (snd (handleUpdateBook env r_put w)) = trace w @ [Update_books]) \<and>
   (Body r_delete = Some del \<longrightarrow>
      code (fst (handleDeleteBook env r_delete w)) \<noteq> 400 \<and>
      trace (snd (handleDeleteBook env r_delete w)) = trace w @ [Delete_books]) \<and>
   (Body r_complete = Some fin \<longrightarrow>
      code (fst (handleCompleteBook env r_complete w)) \<noteq> 400 \<and>
      trace (snd (handleCompleteBook env r_complete w)) = trace w @ [Update_books]) \<and>
   (Body r_auth = Some auth \<longrightarrow>
      code (fst (handleLineAuth env r_auth w)) \<noteq> 400 \<and>
      take (Suc (length (trace w))) (trace (snd (handleLineAuth env r_auth w))) = trace w @ [Select_users])"
  by (auto simp: handleUpdateBook_def handleDeleteBook_def handleCompleteBook_def handleLineAuth_def
      update_books_def delete_books_def select_users_def insert_user_def Execute_def Let_def
      http_Error_def json_message_def split: option.splits)

text \<open>
  C8 at a request the code accepts. A \<open>PUT\<close> whose body names the sample book and its owner
  and gives no title, author, deadline, status or level is answered with 200, and the
  update is issued: the row's title, author and status become empty, its deadline the
  zero time and its level 0. \<open>handleRegisterBook\<close> answers 400 to the same missing title
  and author.
\<close>

theorem handleUpdateBook_blank_fields:
  "handleUpdateBook calm (plain ''PUT'' (Some blank_update)) library =
     (\<lparr> code = 200, body = Message ''Book updated successfully'' \<rparr>,
      library\<lparr> trace := [Update_books],
               books := [dune\<lparr> title := [], author := [], deadline := zero_time, status := [],
                              insult_level := 0, updated_at := 1717200000000000000 \<rparr>] \<rparr>)"
  by (simp add: handleUpdateBook_def update_books_def Execute_def json_message_def
      calm_def plain_def blank_update_def library_def dune_def)

section \<open>The loop of the sweep\<close>

lemma written_refl: "written ids b b"
  by (simp add: written_def)

lemma written_trans: "written ids a b \<Longrightarrow> written ids' b c \<Longrightarrow> written (ids \<union> ids') a c"
  by (auto simp: written_def)


lemma written_map:
  "list_all2 (written {i}) bs (map (\<lambda>b. if book_id b = i then b\<lparr>status := ''insulted''\<rparr> else b) bs)"
  by (induction bs) (simp_all add: written_def)

text \<open>
  One pass of the loop body: the users stay, each book row stays or gets the status
  \<open>insulted\<close>, and either nothing is delivered and no row changes, or one message is
  delivered, the count grows by one and one status write is issued.
\<close>

lemma notify_effect:
  assumes "notify env book c w = (c', w')"
  shows "users w' = users w"
    and "list_all2 (written {BookID book}) (books w) (books w')"
    and "\<exists>xs. pushed w' = pushed w @ xs \<and> c' = c + length xs \<and>
              status_writes w' = status_writes w + length xs \<and>
              (xs = [] \<longrightarrow> books w' = books w)"
  using assms
  by (auto simp: notify_def generateInsult_def select_users_def sendLineMessage_def
      update_books_def Execute_def Let_def written_map list_all2_same written_refl
      status_writes_def
      split: list.splits option.splits push_result.splits if_splits)

lemma sweep_effect:
  "sweep env bs c w = (c', w') \<Longrightarrow>
     users w' = users w \<and>
     list_all2 (written (BookID ` set bs)) (books w) (books w') \<and>
     (\<exists>xs. pushed w' = pushed w @ xs \<and> c' = c + length xs \<and>
           status_writes w' = status_writes w + length xs \<and>
           (xs = [] \<longrightarrow> books w' = books w))"
proof (induction bs arbitrary: c w)
  case Nil
  then show ?case by (simp add: list_all2_same written_refl)
next
  case (Cons book rest)
  obtain c1 w1 where step: "notify env book c w = (c1, w1)"
    by (cases "notify env book c w")
  with Cons.prems have rest: "sweep env rest c1 w1 = (c', w')"
    by simp
  note s = notify_effect [OF step]
  note r = Cons.IH [OF rest]
  from s(3) obtain xs where xs: "pushed w1 = pushed w @ xs" "c1 = c + length xs"
    "status_writes w1 = status_writes w + length xs"
    "xs = [] \<longrightarrow> books w1 = books w" by blast
  from r obtain ys where ys: "pushed w' = pushed w1 @ ys" "c' = c1 + length ys"
    "status_writes w' = status_writes w1 + length ys"
    "ys = [] \<longrightarrow> books w' = books w1" by blast
  have "list_all2 (written ({BookID book} \<union> BookID ` set rest)) (books w) (books w')"
  proof (rule list_all2_trans [OF written_trans])
    show "list_all2 (written {BookID book}) (books w) (books w1)" by (rule s(2))
    show "list_all2 (written (BookID ` set rest)) (books w1) (books w')" using r by blast
  qed
  moreover have "pushed w' = pushed w @ (xs @ ys) \<and> c' = c + length (xs @ ys) \<and>
      status_writes w' = status_writes w + length (xs @ ys) \<and>
      (xs @ ys = [] \<longrightarrow> books w' = books w)"
    using xs ys by simp
  ultimately show ?case
    using s(1) r by (simp del: append_assoc)
qed

text \<open>
  What lines 288 to 291 do in a pass that finds an owner and whose push the provider
  accepts: the count grows by one and the status write is issued on the rows that carry
  the decoded \<open>BookID\<close>; the rows change only if that write goes through.
\<close>

lemma notify_delivered:
  assumes "store_fault env (length (trace w)) = None"
    and "filter (\<lambda>u. users_id u = UserID book) (users w) = u # us"
    and "LINE_CHANNEL_ACCESS_TOKEN env \<noteq> []"
    and "push_reply env (push_attempts w) = Response_status 200"
  shows "notify env book c w =
     (c + 1,
      w\<lparr> draws := Suc (draws w),
         trace := trace w @ [Select_users, Update_books],
         push_attempts := Suc (push_attempts w),
         pushed := pushed w @ [(users_line_user_id u,
                     insultMessages book ! (rand_Intn env (draws w) mod length (insultMessages book)))],
         books := (case store_fault env (Suc (length (trace w))) of
                     Some err \<Rightarrow> books w
                   | None \<Rightarrow> map (\<lambda>b. if book_id b = BookID book then b\<lparr>status := ''insulted''\<rparr> else b)
                              (books w)) \<rparr>)"
  using assms
  by (simp add: notify_def generateInsult_def select_users_def sendLineMessage_def
      update_books_def Execute_def Let_def split: option.splits)

text \<open>The count the loop returns is the count it started with plus the messages delivered.\<close>

lemma sweep_count:
  "fst (sweep env bs c w) = c + (length (pushed (snd (sweep env bs c w))) - length (pushed w))"
  using sweep_effect [of env bs c w "fst (sweep env bs c w)" "snd (sweep env bs c w)"]
  by auto


section \<open>The sweep on the rows the store returns\<close>






section \<open>The count a sweep reports\<close>


end
